theory Spec2Isabelle
  imports Complex_Main "HOL-Library.AList"
begin

section \<open>The execution broker of \<^verbatim>\<open>web_platform_executor.py\<close>\<close>

text \<open>
  The module keeps two global variables, \<^verbatim>\<open>sessions\<close> (a dict from session id to
  \<^verbatim>\<open>{"container": ..., "start_time": ...}\<close>) and \<^verbatim>\<open>prewarmed_pool\<close> (a list of
  containers), and talks to three things outside itself: the Docker daemon, the host
  file system and the clock. The model passes the globals along as an explicit state.
  Everything outside is an oracle (\<open>runtime\<close>): each request the code makes is appended
  to a trace, and the reply to a request is a function of the trace so far, so a
  theorem that holds for every \<open>runtime\<close> holds for whatever Docker, the host and the
  clock really do. An exception is a reply \<open>Some msg\<close> or \<open>Inl msg\<close>, where \<open>msg\<close> is
  what \<^verbatim>\<open>str(e)\<close> gives.
\<close>

subsection \<open>Data\<close>

type_synonym container = string
  \<comment> \<open>a Docker container, named by its \<^verbatim>\<open>id\<close>\<close>

record run_args =
  image :: string
  command :: "string list"
  detach :: bool
  auto_remove :: bool
  network_disabled :: bool
  tty :: bool
  volumes :: "(string \<times> string \<times> string) list"
    \<comment> \<open>host directory, bind point, mode\<close>
  working_dir :: "string option"
  cpu_quota :: nat
  cpu_period :: nat
  mem_limit :: string

record tar_archive =
  arcname :: string
  member :: string

datatype event =
    Makedirs string
  | Save string string
  | ContainersRun run_args "string + container"
      \<comment> \<open>the one request whose reply is kept in the trace: the container it made\<close>
  | PutArchive container string tar_archive
  | ExecRun container string bool
  | Reload container
  | Logs container
  | Stop container
  | Remove container
  | TimeTime
  | Sleep real

record runtime =
  makedirs_reply :: "event list \<Rightarrow> string \<Rightarrow> string option"
  save_reply :: "event list \<Rightarrow> string \<Rightarrow> string option"
  run_reply :: "event list \<Rightarrow> run_args \<Rightarrow> string + container"
  put_archive_reply :: "event list \<Rightarrow> container \<Rightarrow> string \<Rightarrow> tar_archive \<Rightarrow> string option"
  exec_run_reply :: "event list \<Rightarrow> container \<Rightarrow> string \<Rightarrow> string option"
  reload_reply :: "event list \<Rightarrow> container \<Rightarrow> string + string"
    \<comment> \<open>the refreshed \<^verbatim>\<open>container.status\<close>\<close>
  logs_reply :: "event list \<Rightarrow> container \<Rightarrow> string + string"
  decode_reply :: "string \<Rightarrow> string + string"
    \<comment> \<open>\<^verbatim>\<open>bytes.decode("utf-8")\<close>, which raises on bytes that are not UTF-8\<close>
  stop_reply :: "event list \<Rightarrow> container \<Rightarrow> string option"
  remove_reply :: "event list \<Rightarrow> container \<Rightarrow> string option"
  time_reply :: "event list \<Rightarrow> real"
    \<comment> \<open>\<^verbatim>\<open>time.time()\<close>; the code subtracts two readings and compares the difference
        with \<^verbatim>\<open>TIMEOUT_SECONDS\<close>, which is done here on real numbers\<close>

record session =
  container :: container
  start_time :: real

record state =
  sessions :: "(string \<times> session) list"
    \<comment> \<open>a Python dict: keys are distinct and keep their insertion order\<close>
  prewarmed_pool :: "container list"
  host_dirs :: "string set"
  host_files :: "string \<rightharpoonup> string"
  trace :: "event list"

datatype response =
    SessionId string            \<comment> \<open>200 \<^verbatim>\<open>{"session_id": ...}\<close>\<close>
  | MissingPayload              \<comment> \<open>400 \<^verbatim>\<open>{"error": "No file provided"}\<close>\<close>
  | DispatchFailure string      \<comment> \<open>500 \<^verbatim>\<open>{"error": str(e)}\<close> of \<^verbatim>\<open>execute_code\<close>\<close>
  | Unhandled string            \<comment> \<open>an exception that leaves the handler\<close>
  | Finished string             \<comment> \<open>200 \<^verbatim>\<open>{"logs": ...}\<close>\<close>
  | Running                     \<comment> \<open>202 \<^verbatim>\<open>{"status": "still running"}\<close>\<close>
  | SessionNotFound             \<comment> \<open>404 \<^verbatim>\<open>{"error": "Session not found"}\<close>\<close>
  | RetrievalError string       \<comment> \<open>500 \<^verbatim>\<open>{"error": str(e)}\<close> of \<^verbatim>\<open>get_result\<close>\<close>
  | CleanedUp                   \<comment> \<open>200 \<^verbatim>\<open>{"status": "cleaned up"}\<close>\<close>
  | TeardownError string        \<comment> \<open>500 \<^verbatim>\<open>{"error": str(e)}\<close> of \<^verbatim>\<open>cleanup_session\<close>\<close>

subsection \<open>Settings\<close>

definition CONTAINER_IMAGE :: string where
  "CONTAINER_IMAGE = ''python:3.9-slim''"

definition TIMEOUT_SECONDS :: real where
  "TIMEOUT_SECONDS = 10"

definition PREWARMED_POOL_SIZE :: nat where
  "PREWARMED_POOL_SIZE = 1"

definition initial_state :: state where
  "initial_state =
     \<lparr>sessions = [], prewarmed_pool = [], host_dirs = {}, host_files = Map.empty, trace = []\<rparr>"

subsection \<open>Requests to the outside\<close>

definition record_event :: "event \<Rightarrow> state \<Rightarrow> state" where
  "record_event e s = s\<lparr>trace := trace s @ [e]\<rparr>"

definition os_makedirs :: "runtime \<Rightarrow> string \<Rightarrow> state \<Rightarrow> string option \<times> state" where
  "os_makedirs rt d s =
     (case makedirs_reply rt (trace s) d of
        Some e \<Rightarrow> (Some e, record_event (Makedirs d) s)
      | None \<Rightarrow> (None, record_event (Makedirs d) (s\<lparr>host_dirs := insert d (host_dirs s)\<rparr>)))"

definition file_save :: "runtime \<Rightarrow> string \<Rightarrow> string \<Rightarrow> state \<Rightarrow> string option \<times> state" where
  "file_save rt p bytes s =
     (case save_reply rt (trace s) p of
        Some e \<Rightarrow> (Some e, record_event (Save p bytes) s)
      | None \<Rightarrow> (None, record_event (Save p bytes) (s\<lparr>host_files := (host_files s)(p \<mapsto> bytes)\<rparr>)))"

definition containers_run :: "runtime \<Rightarrow> run_args \<Rightarrow> state \<Rightarrow> (string + container) \<times> state" where
  "containers_run rt a s =
     (let r = run_reply rt (trace s) a in (r, record_event (ContainersRun a r) s))"

definition put_archive ::
  "runtime \<Rightarrow> container \<Rightarrow> string \<Rightarrow> tar_archive \<Rightarrow> state \<Rightarrow> string option \<times> state" where
  "put_archive rt c p t s = (put_archive_reply rt (trace s) c p t, record_event (PutArchive c p t) s)"

definition exec_run :: "runtime \<Rightarrow> container \<Rightarrow> string \<Rightarrow> bool \<Rightarrow> state \<Rightarrow> string option \<times> state" where
  "exec_run rt c cmd d s = (exec_run_reply rt (trace s) c cmd, record_event (ExecRun c cmd d) s)"

definition container_reload :: "runtime \<Rightarrow> container \<Rightarrow> state \<Rightarrow> (string + string) \<times> state" where
  "container_reload rt c s = (reload_reply rt (trace s) c, record_event (Reload c) s)"

definition container_logs :: "runtime \<Rightarrow> container \<Rightarrow> state \<Rightarrow> (string + string) \<times> state" where
  "container_logs rt c s = (logs_reply rt (trace s) c, record_event (Logs c) s)"

definition container_stop :: "runtime \<Rightarrow> container \<Rightarrow> state \<Rightarrow> string option \<times> state" where
  "container_stop rt c s = (stop_reply rt (trace s) c, record_event (Stop c) s)"

definition container_remove :: "runtime \<Rightarrow> container \<Rightarrow> state \<Rightarrow> string option \<times> state" where
  "container_remove rt c s = (remove_reply rt (trace s) c, record_event (Remove c) s)"

definition time_time :: "runtime \<Rightarrow> state \<Rightarrow> real \<times> state" where
  "time_time rt s = (time_reply rt (trace s), record_event TimeTime s)"

definition time_sleep :: "real \<Rightarrow> state \<Rightarrow> state" where
  "time_sleep d s = record_event (Sleep d) s"

subsection \<open>Paths and the archive\<close>

definition path_join :: "string \<Rightarrow> string \<Rightarrow> string" where
  \<comment> \<open>\<^verbatim>\<open>os.path.join\<close> of two parts: an absolute second part replaces the first\<close>
  "path_join a b =
     (if b \<noteq> [] \<and> hd b = CHR ''/'' then b
      else if a = [] \<or> last a = CHR ''/'' then a @ b
      else a @ ''/'' @ b)"

definition basename :: "string \<Rightarrow> string" where
  \<comment> \<open>\<^verbatim>\<open>os.path.basename\<close>: what follows the last slash\<close>
  "basename p = rev (takeWhile (\<lambda>c. c \<noteq> CHR ''/'') (rev p))"

definition make_tar :: "string \<Rightarrow> state \<Rightarrow> string + tar_archive" where
  \<comment> \<open>\<^verbatim>\<open>_make_tar\<close>: one member, the file read back from the host, under its base name\<close>
  "make_tar file_path s =
     (case host_files s file_path of
        None \<Rightarrow> Inl ''FileNotFoundError''
      | Some bytes \<Rightarrow> Inr \<lparr>arcname = basename file_path, member = bytes\<rparr>)"

subsection \<open>The prewarm pool\<close>

definition prewarm_args :: run_args where
  "prewarm_args =
     \<lparr>image = CONTAINER_IMAGE, command = [''sleep'', ''3600''], detach = True,
      auto_remove = False, network_disabled = True, tty = True, volumes = [],
      working_dir = None, cpu_quota = 50000, cpu_period = 100000, mem_limit = ''128m''\<rparr>"

definition create_prewarmed_container :: "runtime \<Rightarrow> state \<Rightarrow> state" where
  "create_prewarmed_container rt s =
     (case containers_run rt prewarm_args s of
        (Inr c, s1) \<Rightarrow> s1\<lparr>prewarmed_pool := prewarmed_pool s1 @ [c]\<rparr>
      | (Inl e, s1) \<Rightarrow> s1)"

subsection \<open>\<^verbatim>\<open>execute_code\<close>\<close>

definition fallback_args :: "string \<Rightarrow> run_args" where
  "fallback_args session_dir =
     \<lparr>image = CONTAINER_IMAGE, command = [''python'', ''-m'', ''http.server''], detach = True,
      auto_remove = False, network_disabled = True, tty = False,
      volumes = [(session_dir, ''/code'', ''ro'')],
      working_dir = Some ''/code'', cpu_quota = 50000, cpu_period = 100000,
      mem_limit = ''128m''\<rparr>"

definition obtain_container ::
  "runtime \<Rightarrow> string \<Rightarrow> string \<Rightarrow> state \<Rightarrow> (string + container) \<times> state" where
  \<comment> \<open>the \<^verbatim>\<open>if prewarmed_pool: ... else: ...\<close> inside the \<^verbatim>\<open>try\<close>\<close>
  "obtain_container rt session_dir file_path s =
     (if prewarmed_pool s \<noteq> [] then
        (let c = last (prewarmed_pool s);
             s1 = s\<lparr>prewarmed_pool := butlast (prewarmed_pool s)\<rparr>
         in case make_tar file_path s1 of
              Inl e \<Rightarrow> (Inl e, s1)
            | Inr tar_data \<Rightarrow>
                (case put_archive rt c ''/code'' tar_data s1 of
                   (Some e, s2) \<Rightarrow> (Inl e, s2)
                 | (None, s2) \<Rightarrow>
                     (case exec_run rt c ''python /code/main.py'' True s2 of
                        (Some e, s3) \<Rightarrow> (Inl e, s3)
                      | (None, s3) \<Rightarrow> (Inr c, s3))))
      else containers_run rt (fallback_args session_dir) s)"

definition execute_code ::
  "runtime \<Rightarrow> (string \<times> string) option \<Rightarrow> string \<Rightarrow> state \<Rightarrow> response \<times> state" where
  \<comment> \<open>\<open>file\<close> is \<^verbatim>\<open>request.files.get('file')\<close> as (filename, bytes);
      \<open>session_id\<close> is the value \<^verbatim>\<open>str(uuid.uuid4())\<close> takes in this call\<close>
  "execute_code rt file session_id s =
     (case file of
        None \<Rightarrow> (MissingPayload, s)
      | Some (filename, bytes) \<Rightarrow>
          (let session_dir = ''/tmp/'' @ session_id in
           case os_makedirs rt session_dir s of
             (Some e, s1) \<Rightarrow> (Unhandled e, s1)
           | (None, s1) \<Rightarrow>
               (let file_path = path_join session_dir filename in
                case file_save rt file_path bytes s1 of
                  (Some e, s2) \<Rightarrow> (Unhandled e, s2)
                | (None, s2) \<Rightarrow>
                    (case obtain_container rt session_dir file_path s2 of
                       (Inl e, s3) \<Rightarrow> (DispatchFailure e, s3)
                     | (Inr c, s3) \<Rightarrow>
                         (case time_time rt s3 of
                            (now, s4) \<Rightarrow>
                              (SessionId session_id,
                               s4\<lparr>sessions :=
                                    AList.update session_id
                                      \<lparr>container = c, start_time = now\<rparr> (sessions s4)\<rparr>))))))"

subsection \<open>\<^verbatim>\<open>get_result\<close>\<close>

definition get_result :: "runtime \<Rightarrow> string \<Rightarrow> state \<Rightarrow> response \<times> state" where
  "get_result rt session_id s =
     (case map_of (sessions s) session_id of
        None \<Rightarrow> (SessionNotFound, s)
      | Some x \<Rightarrow>
          (case container_reload rt (container x) s of
             (Inl e, s1) \<Rightarrow> (RetrievalError e, s1)
           | (Inr status, s1) \<Rightarrow>
               if status \<noteq> ''running'' then
                 (case container_logs rt (container x) s1 of
                    (Inl e, s2) \<Rightarrow> (RetrievalError e, s2)
                  | (Inr bytes, s2) \<Rightarrow>
                      (case decode_reply rt bytes of
                         Inl e \<Rightarrow> (RetrievalError e, s2)
                       | Inr logs \<Rightarrow> (Finished logs, s2)))
               else (Running, s1)))"

subsection \<open>Teardown, \<^verbatim>\<open>cleanup_session\<close>, the sweeper and shutdown\<close>

definition teardown :: "runtime \<Rightarrow> container \<Rightarrow> state \<Rightarrow> string option \<times> state" where
  \<comment> \<open>\<^verbatim>\<open>container.stop(); container.remove()\<close> inside a \<^verbatim>\<open>try\<close>: a failing stop skips the remove\<close>
  "teardown rt c s =
     (case container_stop rt c s of
        (Some e, s1) \<Rightarrow> (Some e, s1)
      | (None, s1) \<Rightarrow> container_remove rt c s1)"

definition cleanup_session :: "runtime \<Rightarrow> string \<Rightarrow> state \<Rightarrow> response \<times> state" where
  "cleanup_session rt session_id s =
     (case map_of (sessions s) session_id of
        None \<Rightarrow> (SessionNotFound, s)
      | Some x \<Rightarrow>
          (case teardown rt (container x) (s\<lparr>sessions := AList.delete session_id (sessions s)\<rparr>) of
             (Some e, s1) \<Rightarrow> (TeardownError e, s1)
           | (None, s1) \<Rightarrow> (CleanedUp, s1)))"

definition expire_session :: "runtime \<Rightarrow> string \<times> session \<Rightarrow> state \<Rightarrow> state" where
  \<comment> \<open>the body of the \<^verbatim>\<open>for\<close> loop of the sweeper, for one entry of the snapshot\<close>
  "expire_session rt entry s =
     (case time_time rt s of
        (now, s1) \<Rightarrow>
          if now - start_time (snd entry) > TIMEOUT_SECONDS then
            (case teardown rt (container (snd entry)) s1 of
               (r, s2) \<Rightarrow> s2\<lparr>sessions := AList.delete (fst entry) (sessions s2)\<rparr>)
          else s1)"

fun expire_sessions :: "runtime \<Rightarrow> (string \<times> session) list \<Rightarrow> state \<Rightarrow> state" where
  "expire_sessions rt [] s = s"
| "expire_sessions rt (entry # entries) s = expire_sessions rt entries (expire_session rt entry s)"

definition sweep_once :: "runtime \<Rightarrow> state \<Rightarrow> state" where
  \<comment> \<open>one pass of the \<^verbatim>\<open>while True\<close> loop, over the snapshot \<^verbatim>\<open>list(sessions.items())\<close>\<close>
  "sweep_once rt s =
     (let s1 = expire_sessions rt (sessions s) s;
          s2 = (if length (prewarmed_pool s1) < PREWARMED_POOL_SIZE
                then create_prewarmed_container rt s1 else s1)
      in time_sleep 5 s2)"


fun drain :: "runtime \<Rightarrow> container list \<Rightarrow> state \<Rightarrow> state" where
  "drain rt [] s = s"
| "drain rt (c # cs) s = drain rt cs (snd (teardown rt c s))"

definition shutdown_cleanup :: "runtime \<Rightarrow> state \<Rightarrow> state" where
  "shutdown_cleanup rt s = (drain rt (prewarmed_pool s) s)\<lparr>prewarmed_pool := []\<rparr>"

subsection \<open>Observations used to state the properties\<close>


fun created_by :: "event \<Rightarrow> container list" where
  "created_by (ContainersRun a (Inr c)) = [c]"
| "created_by _ = []"

definition created :: "event list \<Rightarrow> container list" where
  \<comment> \<open>the containers the daemon has handed out so far\<close>
  "created tr = concat (map created_by tr)"

fun target :: "event \<Rightarrow> container list" where
  \<comment> \<open>the container a request is made on\<close>
  "target (PutArchive c p t) = [c]"
| "target (ExecRun c cmd d) = [c]"
| "target (Reload c) = [c]"
| "target (Logs c) = [c]"
| "target (Stop c) = [c]"
| "target (Remove c) = [c]"
| "target _ = []"

definition targets :: "event list \<Rightarrow> container list" where
  "targets tr = concat (map target tr)"

definition bound :: "state \<Rightarrow> container list" where
  \<comment> \<open>the containers that session records are bound to\<close>
  "bound s = map (\<lambda>entry. container (snd entry)) (sessions s)"

definition pool_disjoint :: "state \<Rightarrow> bool" where
  "pool_disjoint s = (set (prewarmed_pool s) \<inter> set (bound s) = {})"

definition pool_idle :: "state \<Rightarrow> bool" where
  \<comment> \<open>nothing has been copied into, started in or asked of a pooled container\<close>
  "pool_idle s = (set (prewarmed_pool s) \<inter> set (targets (trace s)) = {})"

definition tidy :: "state \<Rightarrow> bool" where
  \<comment> \<open>what every step keeps: pooled and bound containers were all handed out by the
      daemon, the pool holds none twice, none that is bound and none that was touched\<close>
  "tidy s =
     (distinct (prewarmed_pool s)
      \<and> set (prewarmed_pool s) \<subseteq> set (created (trace s))
      \<and> set (bound s) \<subseteq> set (created (trace s))
      \<and> set (targets (trace s)) \<subseteq> set (created (trace s))
      \<and> pool_disjoint s \<and> pool_idle s)"



definition since :: "state \<Rightarrow> state \<Rightarrow> event list" where
  \<comment> \<open>the requests made on the way from \<open>s\<close> to \<open>s'\<close>\<close>
  "since s s' = drop (length (trace s)) (trace s')"


subsection \<open>An example environment\<close>

text \<open>
  A daemon that never fails, names its containers \<open>c\<close>, \<open>cc\<close>, \<open>ccc\<close>, ... and reports
  every container as running; a clock on which creating a container takes eleven
  seconds (a cold start), stopping one takes one second and a sleep takes as long as
  asked.
\<close>

fun duration :: "event \<Rightarrow> real" where
  "duration (Sleep d) = max 0 d"
| "duration (ContainersRun a r) = 11"
| "duration (Stop c) = 1"
| "duration _ = 0"

definition fresh_name :: "event list \<Rightarrow> container" where
  "fresh_name tr = replicate (Suc (foldr max (map length (created tr)) 0)) (CHR ''c'')"

definition demo_runtime :: runtime where
  "demo_runtime =
     \<lparr>makedirs_reply = (\<lambda>tr d. None), save_reply = (\<lambda>tr p. None),
      run_reply = (\<lambda>tr a. Inr (fresh_name tr)),
      put_archive_reply = (\<lambda>tr c p t. None), exec_run_reply = (\<lambda>tr c cmd. None),
      reload_reply = (\<lambda>tr c. Inr ''running''), logs_reply = (\<lambda>tr c. Inr []),
      decode_reply = Inr, stop_reply = (\<lambda>tr c. None), remove_reply = (\<lambda>tr c. None),
      time_reply = (\<lambda>tr. sum_list (map duration tr))\<rparr>"

definition example_state :: state where
  \<comment> \<open>one container prewarmed, then \<^verbatim>\<open>script.py\<close> dispatched to it as session \<open>s1\<close>\<close>
  "example_state =
     \<lparr>sessions = [(''s1'', \<lparr>container = ''c'', start_time = 11\<rparr>)],
      prewarmed_pool = [], host_dirs = {''/tmp/s1''},
      host_files = [''/tmp/s1/script.py'' \<mapsto> ''print(1)''],
      trace = [ContainersRun prewarm_args (Inr ''c''), Makedirs ''/tmp/s1'',
               Save ''/tmp/s1/script.py'' ''print(1)'',
               PutArchive ''c'' ''/code'' \<lparr>arcname = ''script.py'', member = ''print(1)''\<rparr>,
               ExecRun ''c'' ''python /code/main.py'' True, TimeTime]\<rparr>"

definition print_hi :: string where
  \<comment> \<open>the payload \<^verbatim>\<open>print('hi')\<close>\<close>
  "print_hi = ''print('' @ [CHR 0x27] @ ''hi'' @ [CHR 0x27] @ '')''"

definition pooled_state :: state where
  \<comment> \<open>the example after one more container has been prewarmed\<close>
  "pooled_state =
     example_state\<lparr>prewarmed_pool := [''cc''],
       trace := trace example_state @ [ContainersRun prewarm_args (Inr ''cc'')]\<rparr>"

definition swept_state :: state where
  \<comment> \<open>the example after one pass of the sweeper\<close>
  "swept_state =
     example_state\<lparr>prewarmed_pool := [''cc''],
       trace := trace example_state @ [TimeTime, ContainersRun prewarm_args (Inr ''cc''), Sleep 5]\<rparr>"

section \<open>Properties\<close>

lemma trace_record_event [simp]: "trace (record_event e s) = trace s @ [e]"
  by (simp add: record_event_def)

lemma sessions_record_event [simp]: "sessions (record_event e s) = sessions s"
  by (simp add: record_event_def)

lemma pool_record_event [simp]: "prewarmed_pool (record_event e s) = prewarmed_pool s"
  by (simp add: record_event_def)

lemma host_dirs_record_event [simp]: "host_dirs (record_event e s) = host_dirs s"
  by (simp add: record_event_def)

lemma host_files_record_event [simp]: "host_files (record_event e s) = host_files s"
  by (simp add: record_event_def)

lemmas run_defs = execute_code_def os_makedirs_def file_save_def obtain_container_def
  containers_run_def put_archive_def exec_run_def time_time_def time_sleep_def path_join_def
  basename_def make_tar_def created_def fresh_name_def fallback_args_def prewarm_args_def
  create_prewarmed_container_def get_result_def container_reload_def container_logs_def
  teardown_def container_stop_def container_remove_def cleanup_session_def expire_session_def
  sweep_once_def shutdown_cleanup_def record_event_def Let_def
  CONTAINER_IMAGE_def TIMEOUT_SECONDS_def PREWARMED_POOL_SIZE_def



lemma teardown_frame:
  assumes "teardown rt c s = (r, s')"
  shows "sessions s' = sessions s" "prewarmed_pool s' = prewarmed_pool s"
    "host_dirs s' = host_dirs s" "host_files s' = host_files s"
  using assms
  by (auto simp: teardown_def container_stop_def container_remove_def split: option.splits)

lemma teardown_reply:
  "fst (teardown rt c s) =
     (case stop_reply rt (trace s) c of
        Some e \<Rightarrow> Some e
      | None \<Rightarrow> remove_reply rt (trace s @ [Stop c]) c)"
  by (simp add: teardown_def container_stop_def container_remove_def split: option.splits)

subsection \<open>Dispatch without a payload\<close>

text \<open>
  Claim C3, as the code has it: when the request carries no \<^verbatim>\<open>file\<close> part,
  \<^verbatim>\<open>execute_code\<close> answers 400 "No file provided" and nothing changes: not the registry,
  not the pool, not the host file system, and no request goes out.
\<close>

theorem execute_code_missing_payload:
  "execute_code rt None session_id s = (MissingPayload, s)"
  by (simp add: execute_code_def)

text \<open>
  Claim C3 as stated also asks for an empty file to be refused. The code only tests
  for the \<^verbatim>\<open>file\<close> part being there: an empty \<^verbatim>\<open>main.py\<close> is saved on the host,
  gets a container and is registered.
\<close>

theorem execute_code_empty_file_dispatched:
  "fst (execute_code demo_runtime (Some (''main.py'', [])) ''s1'' initial_state) = SessionId ''s1''
   \<and> sessions (snd (execute_code demo_runtime (Some (''main.py'', [])) ''s1'' initial_state))
       = [(''s1'', \<lparr>container = ''c'', start_time = 11\<rparr>)]
   \<and> host_files (snd (execute_code demo_runtime (Some (''main.py'', [])) ''s1'' initial_state))
         ''/tmp/s1/main.py'' = Some []
   \<and> sessions initial_state = []
   \<and> host_files initial_state ''/tmp/s1/main.py'' = None"
  by (simp add: run_defs demo_runtime_def initial_state_def)

subsection \<open>Explicit cleanup\<close>

text \<open>
  Claim C4: for a registered session, \<^verbatim>\<open>cleanup_session\<close> takes the record out of
  the registry before it touches the container, so the record is gone whatever
  \<^verbatim>\<open>stop\<close> and \<^verbatim>\<open>remove\<close> do; an error of either is the 500 answer, and a second
  cleanup of the same identifier answers "Session not found".
\<close>

theorem cleanup_session_removes:
  assumes "map_of (sessions s) session_id = Some x"
  shows "map_of (sessions (snd (cleanup_session rt session_id s))) session_id = None
    \<and> fst (cleanup_session rt session_id (snd (cleanup_session rt session_id s))) = SessionNotFound
    \<and> (\<forall>e. stop_reply rt (trace s) (container x) = Some e \<longrightarrow>
          fst (cleanup_session rt session_id s) = TeardownError e)
    \<and> (\<forall>e. stop_reply rt (trace s) (container x) = None \<and>
            remove_reply rt (trace s @ [Stop (container x)]) (container x) = Some e \<longrightarrow>
          fst (cleanup_session rt session_id s) = TeardownError e)
    \<and> (stop_reply rt (trace s) (container x) = None \<and>
            remove_reply rt (trace s @ [Stop (container x)]) (container x) = None \<longrightarrow>
          fst (cleanup_session rt session_id s) = CleanedUp)"
proof -
  let ?s0 = "s\<lparr>sessions := AList.delete session_id (sessions s)\<rparr>"
  obtain r s1 where td: "teardown rt (container x) ?s0 = (r, s1)"
    by (cases "teardown rt (container x) ?s0")
  have res: "cleanup_session rt session_id s =
      ((case r of Some e \<Rightarrow> TeardownError e | None \<Rightarrow> CleanedUp), s1)"
    using assms td by (simp add: cleanup_session_def split: option.splits)
  have gone: "map_of (sessions s1) session_id = None"
    using teardown_frame(1)[OF td] by (simp add: delete_conv')
  have r: "r = (case stop_reply rt (trace s) (container x) of
        Some e \<Rightarrow> Some e
      | None \<Rightarrow> remove_reply rt (trace s @ [Stop (container x)]) (container x))"
    using teardown_reply[of rt "container x" ?s0] td by (simp split: option.splits)
  have again: "fst (cleanup_session rt session_id s1) = SessionNotFound"
    using gone by (simp add: cleanup_session_def)
  show ?thesis
    using gone again by (auto simp: res r)
qed

text \<open>Session \<open>s1\<close> of the example, with a daemon whose \<^verbatim>\<open>stop\<close> fails.\<close>

theorem cleanup_session_removes_witness:
  "map_of (sessions example_state) ''s1'' = Some \<lparr>container = ''c'', start_time = 11\<rparr>
   \<and> stop_reply (demo_runtime\<lparr>stop_reply := \<lambda>tr c. Some ''409 Conflict''\<rparr>)
         (trace example_state) ''c'' = Some ''409 Conflict''
   \<and> fst (cleanup_session (demo_runtime\<lparr>stop_reply := \<lambda>tr c. Some ''409 Conflict''\<rparr>)
         ''s1'' example_state) = TeardownError ''409 Conflict''
   \<and> map_of (sessions (snd (cleanup_session
         (demo_runtime\<lparr>stop_reply := \<lambda>tr c. Some ''409 Conflict''\<rparr>) ''s1'' example_state)))
         ''s1'' = None
   \<and> fst (cleanup_session (demo_runtime\<lparr>stop_reply := \<lambda>tr c. Some ''409 Conflict''\<rparr>) ''s1''
         (snd (cleanup_session (demo_runtime\<lparr>stop_reply := \<lambda>tr c. Some ''409 Conflict''\<rparr>)
            ''s1'' example_state))) = SessionNotFound"
proof -
  let ?rt = "demo_runtime\<lparr>stop_reply := \<lambda>tr c. Some ''409 Conflict''\<rparr>"
  have h: "map_of (sessions example_state) ''s1'' = Some \<lparr>container = ''c'', start_time = 11\<rparr>"
    by (simp add: example_state_def)
  have e: "stop_reply ?rt (trace example_state) ''c'' = Some ''409 Conflict''"
    by simp
  show ?thesis
    using h e cleanup_session_removes [OF h, of ?rt] by simp
qed

subsection \<open>Reading a result\<close>

text \<open>
  Claim C8: for a registered session, when \<^verbatim>\<open>container.reload()\<close> raises,
  \<^verbatim>\<open>get_result\<close> answers 500 with the text of that exception, not "still running";
  the only change to the state is the request in the trace, and the session record
  stays as it was.
\<close>

theorem get_result_reload_error:
  assumes "map_of (sessions s) session_id = Some x"
    and "reload_reply rt (trace s) (container x) = Inl e"
  shows "get_result rt session_id s =
           (RetrievalError e, s\<lparr>trace := trace s @ [Reload (container x)]\<rparr>)
    \<and> sessions (snd (get_result rt session_id s)) = sessions s
    \<and> map_of (sessions (snd (get_result rt session_id s))) session_id = Some x"
  using assms by (simp add: get_result_def container_reload_def record_event_def)

text \<open>Session \<open>s1\<close> of the example, with a daemon that no longer knows the container.\<close>

theorem get_result_reload_error_witness:
  "map_of (sessions example_state) ''s1'' = Some \<lparr>container = ''c'', start_time = 11\<rparr>
   \<and> reload_reply (demo_runtime\<lparr>reload_reply := \<lambda>tr c. Inl ''404 No such container''\<rparr>)
        (trace example_state) ''c'' = Inl ''404 No such container''
   \<and> get_result (demo_runtime\<lparr>reload_reply := \<lambda>tr c. Inl ''404 No such container''\<rparr>)
        ''s1'' example_state
       = (RetrievalError ''404 No such container'',
          example_state\<lparr>trace := trace example_state @ [Reload ''c'']\<rparr>)"
proof -
  let ?rt = "demo_runtime\<lparr>reload_reply := \<lambda>tr c. Inl ''404 No such container''\<rparr>"
  have h: "map_of (sessions example_state) ''s1'' = Some \<lparr>container = ''c'', start_time = 11\<rparr>"
    by (simp add: example_state_def)
  have e: "reload_reply ?rt (trace example_state) (container \<lparr>container = ''c'', start_time = 11\<rparr>)
      = Inl ''404 No such container''"
    by simp
  show ?thesis
    using h e get_result_reload_error [OF h e] by simp
qed



lemma pooled_state_provisioned:
  "create_prewarmed_container demo_runtime example_state = pooled_state"
  by (simp add: run_defs demo_runtime_def example_state_def pooled_state_def)


subsection \<open>Dispatch with an empty pool\<close>

text \<open>
  Claim C1 says that a dispatch that finds the pool empty also starts the payload.
  The code does not: the fallback branch creates the container with the standby
  command \<^verbatim>\<open>python -m http.server\<close> and the session directory mounted read-only at
  \<^verbatim>\<open>/code\<close>, and registers the session. Here is all that \<^verbatim>\<open>execute_code\<close>
  does with \<^verbatim>\<open>main.py\<close> = \<^verbatim>\<open>print('hi')\<close> and nothing in the pool: no \<^verbatim>\<open>exec_run\<close>,
  nothing that runs \<^verbatim>\<open>main.py\<close>.
\<close>

theorem execute_code_fallback_only_standby:
  "execute_code demo_runtime (Some (''main.py'', print_hi)) ''s1'' initial_state =
     (SessionId ''s1'',
      \<lparr>sessions = [(''s1'', \<lparr>container = ''c'', start_time = 11\<rparr>)],
       prewarmed_pool = [], host_dirs = {''/tmp/s1''},
       host_files = [''/tmp/s1/main.py'' \<mapsto> print_hi],
       trace = [Makedirs ''/tmp/s1'', Save ''/tmp/s1/main.py'' print_hi,
                ContainersRun
                  \<lparr>image = ''python:3.9-slim'', command = [''python'', ''-m'', ''http.server''],
                   detach = True, auto_remove = False, network_disabled = True, tty = False,
                   volumes = [(''/tmp/s1'', ''/code'', ''ro'')], working_dir = Some ''/code'',
                   cpu_quota = 50000, cpu_period = 100000, mem_limit = ''128m''\<rparr>
                  (Inr ''c''),
                TimeTime]\<rparr>)"
  by (simp add: run_defs demo_runtime_def initial_state_def)

text \<open>The same for every payload, runtime and state: with an empty pool a dispatch makes
  no request on any container.\<close>

lemma fallback_issues_no_request_on_container:
  assumes "prewarmed_pool s = []"
  shows "targets (since s (snd (execute_code rt file session_id s))) = []"
  using assms
  by (auto simp: execute_code_def os_makedirs_def file_save_def obtain_container_def
      containers_run_def time_time_def since_def targets_def Let_def
      split: option.splits prod.splits sum.splits)

subsection \<open>Dispatch from the pool\<close>

text \<open>
  Claim C2 says that a dispatch served from the pool runs the submitted entry file.
  The code copies the file into the container under its own name and then starts
  the fixed command \<^verbatim>\<open>python /code/main.py\<close>: for \<^verbatim>\<open>script.py\<close> the archive holds
  \<^verbatim>\<open>script.py\<close> and the command names \<^verbatim>\<open>main.py\<close>.
\<close>

theorem execute_code_pool_runs_main_py:
  "trace (snd (execute_code demo_runtime (Some (''script.py'', ''print(1)'')) ''s1''
       (create_prewarmed_container demo_runtime initial_state))) =
     [ContainersRun prewarm_args (Inr ''c''), Makedirs ''/tmp/s1'',
      Save ''/tmp/s1/script.py'' ''print(1)'',
      PutArchive ''c'' ''/code'' \<lparr>arcname = ''script.py'', member = ''print(1)''\<rparr>,
      ExecRun ''c'' ''python /code/main.py'' True, TimeTime]"
  by (simp add: run_defs demo_runtime_def initial_state_def)

text \<open>Whatever the file is called, the command started is the same.\<close>

lemma pool_path_command_fixed:
  assumes "prewarmed_pool s \<noteq> []"
    and "ExecRun c cmd d \<in> set (since s (snd (execute_code rt (Some (filename, bytes)) session_id s)))"
  shows "cmd = ''python /code/main.py''"
  using assms
  by (auto simp: execute_code_def os_makedirs_def file_save_def obtain_container_def
      put_archive_def exec_run_def make_tar_def
      containers_run_def time_time_def since_def targets_def Let_def
      split: option.splits prod.splits sum.splits if_splits)

subsection \<open>Shutdown\<close>








subsection \<open>Polling\<close>






subsection \<open>The sweeper\<close>
















text \<open>The second pass over the example: the clock reads 27, session \<open>s1\<close> is 16 seconds old.\<close>

lemma sweep_swept_state:
  "sweep_once demo_runtime swept_state =
     swept_state\<lparr>sessions := [],
       trace := trace swept_state @ [TimeTime, Stop ''c'', Remove ''c'', Sleep 5]\<rparr>"
  by (simp add: run_defs demo_runtime_def example_state_def swept_state_def)



subsection \<open>Pool and registry never share a container\<close>

lemma created_append [simp]: "created (tr @ evs) = created tr @ created evs"
  by (simp add: created_def)

lemma targets_append [simp]: "targets (tr @ evs) = targets tr @ targets evs"
  by (simp add: targets_def)

lemma created_Nil [simp]: "created [] = []"
  by (simp add: created_def)

lemma targets_Nil [simp]: "targets [] = []"
  by (simp add: targets_def)

lemma created_Cons [simp]: "created (e # evs) = created_by e @ created evs"
  by (simp add: created_def)

lemma targets_Cons [simp]: "targets (e # evs) = target e @ targets evs"
  by (simp add: targets_def)

















lemma tidy_host [simp]:
  "tidy (s\<lparr>host_dirs := d\<rparr>) = tidy s" "tidy (s\<lparr>host_files := f\<rparr>) = tidy s"
  by (simp_all add: tidy_def pool_disjoint_def pool_idle_def bound_def)














end
